theory Spec2Isabelle
  imports Main
begin

section \<open>JavaScript values and strings\<close>

text \<open>
  A JavaScript string is modelled as the list of its code units. The code below compares
  strings for equality, searches an error message for the ASCII text 403, takes the
  length of transcript text and trims the text of a segment; nothing else. The non-ASCII
  message literals of the source are given by their UTF-8 bytes, which keeps equality and
  the search for an ASCII text exact (no length of a message is ever taken). A number is
  only ever tested for being truthy or handed on as it is.
\<close>

datatype js_value =
    JUndefined
  | JNull
  | JBool bool
  | JNum int
  | JStr string
  | JArr "js_value list"
  | JObj "(string \<times> js_value) list"

text \<open>Truthiness as an \<open>if\<close> or \<open>&&\<close> of the source sees it.\<close>

fun truthy :: "js_value \<Rightarrow> bool" where
  "truthy JUndefined = False"
| "truthy JNull = False"
| "truthy (JBool b) = b"
| "truthy (JNum n) = (n \<noteq> 0)"
| "truthy (JStr s) = (s \<noteq> [])"
| "truthy (JArr xs) = True"
| "truthy (JObj kvs) = True"

text \<open>\<open>String.prototype.startsWith\<close> and \<open>String.prototype.includes\<close>.\<close>

fun starts_with :: "string \<Rightarrow> string \<Rightarrow> bool" where
  "starts_with s [] = True"
| "starts_with [] (c # cs) = False"
| "starts_with (x # xs) (c # cs) = (x = c \<and> starts_with xs cs)"

fun includes_str :: "string \<Rightarrow> string \<Rightarrow> bool" where
  "includes_str [] t = (t = [])"
| "includes_str (x # xs) t = (starts_with (x # xs) t \<or> includes_str xs t)"

text \<open>Decimal rendering of a number inside a template literal.\<close>

definition digit_char :: "nat \<Rightarrow> char" where
  "digit_char d = char_of (48 + d)"

fun show_nat :: "nat \<Rightarrow> string" where
  "show_nat n = (if n < 10 then [digit_char n] else show_nat (n div 10) @ [digit_char (n mod 10)])"

declare show_nat.simps [simp del]

definition show_int :: "int \<Rightarrow> string" where
  "show_int i = (if i < 0 then CHR ''-'' # show_nat (nat (- i)) else show_nat (nat i))"

section \<open>The task poller: \<open>APIClient.pollV2TaskStatus\<close> (web/lib/supabase.ts)\<close>

text \<open>The body of a task-status reply: \<open>TaskStatusResponse\<close>. An absent optional field is \<open>None\<close>.\<close>

record task_status_response =
  status :: string
  progress :: "js_value option"
  result :: "js_value option"
  error :: "string option"

text \<open>
  What one status fetch of the loop yields: the fetch (or reading the token, or decoding
  the body) throws an \<open>Error\<close> with a message; or a reply arrives whose \<open>ok\<close> flag is
  false, with its HTTP status code; or a reply arrives with a decoded body.
\<close>

datatype fetch_outcome =
    Rejected string
  | NotOk nat
  | Json task_status_response

record task_status_flags =
  isPending :: bool
  isCompleted :: bool
  isFailed :: bool
  isCancelled :: bool

text \<open>
  Modelled from the spec: \<open>getTaskStatus\<close> is imported from \<open>./api-types\<close>, which is not
  among the sources. The specification recognises the status values \<open>pending\<close>,
  \<open>processing\<close>, \<open>completed\<close>, \<open>failed\<close> and \<open>cancelled\<close>; \<open>pending\<close> and \<open>processing\<close> are
  the two that make the poller wait and continue, and any other string is unrecognised.
\<close>

definition getTaskStatus :: "task_status_response \<Rightarrow> task_status_flags" where
  "getTaskStatus r =
     \<lparr> isPending = (status r = ''pending'' \<or> status r = ''processing''),
       isCompleted = (status r = ''completed''),
       isFailed = (status r = ''failed''),
       isCancelled = (status r = ''cancelled'') \<rparr>"

text \<open>The message literals of the poller.\<close>

definition msg_task_failed :: string where
  "msg_task_failed =
     [CHR 0xE4, CHR 0xBB, CHR 0xBB, CHR 0xE5, CHR 0x8A, CHR 0xA1, CHR 0xE6, CHR 0x89, CHR 0xA7,
      CHR 0xE8, CHR 0xA1, CHR 0x8C, CHR 0xE5, CHR 0xA4, CHR 0xB1, CHR 0xE8, CHR 0xB4, CHR 0xA5]"

definition msg_task_cancelled :: string where
  "msg_task_cancelled =
     [CHR 0xE4, CHR 0xBB, CHR 0xBB, CHR 0xE5, CHR 0x8A, CHR 0xA1, CHR 0xE8, CHR 0xA2, CHR 0xAB,
      CHR 0xE5, CHR 0x8F, CHR 0x96, CHR 0xE6, CHR 0xB6, CHR 0x88]"

definition msg_auth_prefix :: string where
  "msg_auth_prefix =
     [CHR 0xE8, CHR 0xAE, CHR 0xA4, CHR 0xE8, CHR 0xAF, CHR 0x81, CHR 0xE5, CHR 0xA4, CHR 0xB1,
      CHR 0xE8, CHR 0xB4, CHR 0xA5, CHR 0xEF, CHR 0xBC, CHR 0x8C, CHR 0xE8, CHR 0xAF, CHR 0xB7,
      CHR 0xE9, CHR 0x87, CHR 0x8D, CHR 0xE6, CHR 0x96, CHR 0xB0, CHR 0xE7, CHR 0x99, CHR 0xBB,
      CHR 0xE5, CHR 0xBD, CHR 0x95, CHR 0x3A, CHR 0x20]"

definition msg_timeout_prefix :: string where
  "msg_timeout_prefix =
     [CHR 0x56, CHR 0x32, CHR 0xE4, CHR 0xBB, CHR 0xBB, CHR 0xE5, CHR 0x8A, CHR 0xA1, CHR 0xE8,
      CHR 0xBD, CHR 0xAE, CHR 0xE8, CHR 0xAF, CHR 0xA2, CHR 0xE8, CHR 0xB6, CHR 0x85, CHR 0xE6,
      CHR 0x97, CHR 0xB6, CHR 0x20, CHR 0x28]"

definition msg_timeout_suffix :: string where
  "msg_timeout_suffix =
     [CHR 0x20, CHR 0xE6, CHR 0xAC, CHR 0xA1, CHR 0xE5, CHR 0xB0, CHR 0x9D, CHR 0xE8, CHR 0xAF,
      CHR 0x95, CHR 0x29]"

text \<open>The errors the poller throws, each an \<open>Error\<close> known by its message.\<close>

definition http_error :: "nat \<Rightarrow> string" where
  "http_error code = ''HTTP '' @ show_nat code"

definition task_failure :: "string option \<Rightarrow> string" where
  "task_failure e = (case e of None \<Rightarrow> msg_task_failed
                     | Some m \<Rightarrow> if m = [] then msg_task_failed else m)"

definition auth_error :: "string \<Rightarrow> string" where
  "auth_error m = msg_auth_prefix @ m"

definition poll_timeout :: "int \<Rightarrow> string" where
  "poll_timeout maxAttempts = msg_timeout_prefix @ show_int maxAttempts @ msg_timeout_suffix"

text \<open>
  How the \<open>try\<close> block of one iteration ends: it returns the result, it throws, it sleeps
  3000 ms and takes \<open>continue\<close>, or it runs off its end after the warning about the
  unrecognised status.
\<close>

datatype try_end =
    TryReturn js_value
  | TryThrow string
  | TryWaitContinue
  | TryFallThrough

definition present_result :: "task_status_response \<Rightarrow> js_value option" where
  "present_result r = (case result r of None \<Rightarrow> None
                       | Some v \<Rightarrow> if truthy v then Some v else None)"

definition try_block :: "fetch_outcome \<Rightarrow> try_end" where
  "try_block out =
     (case out of
        Rejected m \<Rightarrow> TryThrow m
      | NotOk code \<Rightarrow> TryThrow (http_error code)
      | Json r \<Rightarrow>
          (let st = getTaskStatus r in
           case (if isCompleted st then present_result r else None) of
             Some v \<Rightarrow> TryReturn v
           | None \<Rightarrow>
               if isFailed st then TryThrow (task_failure (error r))
               else if isCancelled st then TryThrow msg_task_cancelled
               else if isPending st then TryWaitContinue
               else TryFallThrough))"

text \<open>
  How one iteration ends: the poll is over (with an error or the result), or the loop goes
  on to the next attempt, after a sleep of the given milliseconds when there is one.
\<close>

datatype iteration_end =
    Finished "string + js_value"
  | NextAttempt "nat option"

text \<open>The \<open>catch\<close> block, which receives every error thrown inside the \<open>try\<close> block.\<close>

definition catch_block :: "int \<Rightarrow> nat \<Rightarrow> string \<Rightarrow> iteration_end" where
  "catch_block maxAttempts attempt m =
     (if includes_str m ''403'' then
        (if attempt \<ge> 5 then Finished (Inl (auth_error m))
         else NextAttempt (Some 1000))
      else if int attempt \<ge> maxAttempts - 3 then Finished (Inl m)
      else NextAttempt (Some 3000))"

definition iteration :: "int \<Rightarrow> nat \<Rightarrow> fetch_outcome \<Rightarrow> iteration_end" where
  "iteration maxAttempts attempt out =
     (case try_block out of
        TryReturn v \<Rightarrow> Finished (Inr v)
      | TryThrow m \<Rightarrow> catch_block maxAttempts attempt m
      | TryWaitContinue \<Rightarrow> NextAttempt (Some 3000)
      | TryFallThrough \<Rightarrow> NextAttempt None)"

text \<open>
  What a run of the poller did besides returning: the number of status fetches it issued
  and the sleeps it took, in order, in milliseconds.
\<close>

record poll_trace =
  fetches :: nat
  sleeps :: "nat list"

definition after_fetch :: "poll_trace \<Rightarrow> poll_trace" where
  "after_fetch tr = tr\<lparr>fetches := Suc (fetches tr)\<rparr>"

definition after_sleep :: "nat option \<Rightarrow> poll_trace \<Rightarrow> poll_trace" where
  "after_sleep d tr = (case d of None \<Rightarrow> tr | Some ms \<Rightarrow> tr\<lparr>sleeps := sleeps tr @ [ms]\<rparr>)"

text \<open>
  The \<open>for\<close> loop, from the iteration with index \<open>attempt\<close> on. \<open>env k\<close> is what the status
  fetch of the iteration with index \<open>k\<close> yields. The error after the loop is thrown outside
  every \<open>try\<close>.
\<close>

function poll_from :: "(nat \<Rightarrow> fetch_outcome) \<Rightarrow> int \<Rightarrow> nat \<Rightarrow> poll_trace
    \<Rightarrow> (string + js_value) \<times> poll_trace" where
  "poll_from env maxAttempts attempt tr =
     (if int attempt < maxAttempts then
        (case iteration maxAttempts attempt (env attempt) of
           Finished r \<Rightarrow> (r, after_fetch tr)
         | NextAttempt d \<Rightarrow>
             poll_from env maxAttempts (Suc attempt) (after_sleep d (after_fetch tr)))
      else (Inl (poll_timeout maxAttempts), tr))"
  by pat_completeness auto
termination
  by (relation "measure (\<lambda>(env, maxAttempts, attempt, tr). nat (maxAttempts - int attempt))") auto

declare poll_from.simps [simp del]

text \<open>The method itself; \<open>None\<close> for \<open>maxAttempts\<close> is the call that leaves the parameter out.\<close>

definition default_maxAttempts :: int where
  "default_maxAttempts = 120"

definition pollV2TaskStatus :: "(nat \<Rightarrow> fetch_outcome) \<Rightarrow> int option
    \<Rightarrow> (string + js_value) \<times> poll_trace" where
  "pollV2TaskStatus env maxAttempts =
     poll_from env (case maxAttempts of None \<Rightarrow> default_maxAttempts | Some m \<Rightarrow> m) 0
       \<lparr>fetches = 0, sleeps = []\<rparr>"

text \<open>Replies used in examples: a scripted list of outcomes, then one outcome forever.\<close>

definition scripted :: "fetch_outcome list \<Rightarrow> fetch_outcome \<Rightarrow> nat \<Rightarrow> fetch_outcome" where
  "scripted outs rest k = (if k < length outs then outs ! k else rest)"

definition reply :: "string \<Rightarrow> fetch_outcome" where
  "reply s = Json \<lparr> status = s, progress = None, result = None, error = None \<rparr>"

definition reply_failed :: "string \<Rightarrow> fetch_outcome" where
  "reply_failed m = Json \<lparr> status = ''failed'', progress = None, result = None, error = Some m \<rparr>"

definition reply_completed :: "js_value \<Rightarrow> fetch_outcome" where
  "reply_completed v =
     Json \<lparr> status = ''completed'', progress = None, result = Some v, error = None \<rparr>"

text \<open>
  Two predicates on what a fetch yields, used to state properties of the loop: a reply that
  is neither \<open>failed\<close> nor \<open>cancelled\<close> nor \<open>completed\<close> with a result present, and a
  reply that is \<open>pending\<close> or \<open>processing\<close>.
\<close>

definition keeps_polling :: "fetch_outcome \<Rightarrow> bool" where
  "keeps_polling out =
     (case out of
        Json r \<Rightarrow> status r \<noteq> ''failed'' \<and> status r \<noteq> ''cancelled'' \<and>
                  \<not> (status r = ''completed'' \<and> present_result r \<noteq> None)
      | _ \<Rightarrow> False)"

definition still_running :: "fetch_outcome \<Rightarrow> bool" where
  "still_running out =
     (case out of
        Json r \<Rightarrow> status r = ''pending'' \<or> status r = ''processing''
      | _ \<Rightarrow> False)"

section \<open>The subscription manager: \<open>subscriptionManager\<close> (web/lib/supabase.ts)\<close>

text \<open>
  A transport subscription, as \<open>supabase.channel(name).on('postgres_changes', ...).subscribe(...)\<close>
  opens it: the channel name, the table it listens to and the row filter, when it has one.
\<close>

record subscription =
  topic :: string
  table :: string
  row_filter :: "string option"

text \<open>
  The manager with the transport it drives. A channel object is known by its index in
  \<open>opened\<close>, the list of every transport subscription opened so far; \<open>unsubscribed\<close>
  lists the channels whose \<open>unsubscribe\<close> went through. \<open>activeChannels\<close> is the
  \<open>Map\<close> of the source.
\<close>

record manager =
  activeChannels :: "string \<rightharpoonup> nat"
  opened :: "subscription list"
  unsubscribed :: "nat list"

text \<open>Whether the chain that opens a subscription returns the channel or throws.\<close>

datatype open_outcome = Opened | OpenThrows

text \<open>Whether \<open>channel.unsubscribe()\<close> returns or throws.\<close>

datatype teardown_outcome = TeardownOk | TeardownThrows

definition hasChannel :: "manager \<Rightarrow> string \<Rightarrow> bool" where
  "hasChannel m channelName = (activeChannels m channelName \<noteq> None)"

text \<open>
  The part both create operations share after the membership test: open the subscription
  and store the channel under the name, or return \<open>null\<close> when the chain throws.
\<close>

definition open_and_store :: "string \<Rightarrow> subscription \<Rightarrow> open_outcome \<Rightarrow> manager
    \<Rightarrow> nat option \<times> manager" where
  "open_and_store channelName sub oc m =
     (case oc of
        OpenThrows \<Rightarrow> (None, m)
      | Opened \<Rightarrow>
          (let channel = length (opened m) in
           (Some channel,
            m\<lparr> opened := opened m @ [sub],
               activeChannels := (activeChannels m)(channelName \<mapsto> channel) \<rparr>)))"

definition createChannel :: "string \<Rightarrow> string \<Rightarrow> open_outcome \<Rightarrow> manager
    \<Rightarrow> nat option \<times> manager" where
  "createChannel channelName userId oc m =
     (if hasChannel m channelName then (activeChannels m channelName, m)
      else open_and_store channelName
             \<lparr> topic = channelName, table = ''recording_sessions'',
               row_filter = Some (''user_id=eq.'' @ userId) \<rparr> oc m)"

definition createTranscriptionChannel :: "string \<Rightarrow> string list \<Rightarrow> open_outcome \<Rightarrow> manager
    \<Rightarrow> nat option \<times> manager" where
  "createTranscriptionChannel channelName sessionIds oc m =
     (if hasChannel m channelName then (activeChannels m channelName, m)
      else open_and_store channelName
             \<lparr> topic = channelName, table = ''transcriptions'', row_filter = None \<rparr> oc m)"

definition removeChannel :: "string \<Rightarrow> teardown_outcome \<Rightarrow> manager \<Rightarrow> manager" where
  "removeChannel channelName td m =
     (case activeChannels m channelName of
        Some channel \<Rightarrow>
          (case td of
             TeardownOk \<Rightarrow>
               m\<lparr> unsubscribed := unsubscribed m @ [channel],
                  activeChannels := (activeChannels m)(channelName := None) \<rparr>
           | TeardownThrows \<Rightarrow>
               m\<lparr> activeChannels := (activeChannels m)(channelName := None) \<rparr>)
      | None \<Rightarrow> m)"

text \<open>The status callback both create operations hand to \<open>subscribe\<close>.\<close>

definition on_subscribe_status :: "string \<Rightarrow> string \<Rightarrow> teardown_outcome \<Rightarrow> manager \<Rightarrow> manager" where
  "on_subscribe_status channelName st td m =
     (if st = ''SUBSCRIBED'' then m
      else if st = ''CHANNEL_ERROR'' then removeChannel channelName td m
      else if st = ''TIMED_OUT'' then removeChannel channelName td m
      else if st = ''CLOSED'' then m\<lparr> activeChannels := (activeChannels m)(channelName := None) \<rparr>
      else m)"

definition empty_manager :: manager where
  "empty_manager = \<lparr> activeChannels = Map.empty, opened = [], unsubscribed = [] \<rparr>"

section \<open>Tracking a retranscription: \<open>HomePage\<close> (web/app/page.tsx)\<close>

text \<open>The fields of a transcription and of a session that the tracking reads.\<close>

record transcription =
  transcription_id :: "string option"
  content :: "string option"
  segments :: js_value

record session =
  session_id :: string
  session_status :: string
  transcriptions :: "transcription list option"

record transcript_signature =
  signature_id :: "string option"
  contentLength :: nat
  segmentsLength :: nat

text \<open>
  \<open>transcriptions && transcriptions.length > 0 ? transcriptions[0] : undefined\<close>
\<close>

definition first_transcription :: "session \<Rightarrow> transcription option" where
  "first_transcription s =
     (case transcriptions s of
        None \<Rightarrow> None
      | Some ts \<Rightarrow> (case ts of [] \<Rightarrow> None | t # _ \<Rightarrow> Some t))"

definition segments_length :: "js_value \<Rightarrow> nat" where
  "segments_length v = (case v of JArr xs \<Rightarrow> length xs | JStr str \<Rightarrow> length str | _ \<Rightarrow> 0)"

text \<open>
  The signature of \<open>t\<close>, where \<open>t\<close> may be \<open>undefined\<close>; the submission and the completion
  effect compute it the same way.
\<close>

definition signature_of :: "transcription option \<Rightarrow> transcript_signature" where
  "signature_of t =
     \<lparr> signature_id = (case t of None \<Rightarrow> None | Some tr \<Rightarrow> transcription_id tr),
       contentLength =
         (case t of None \<Rightarrow> 0
          | Some tr \<Rightarrow> (case content tr of None \<Rightarrow> 0
                        | Some c \<Rightarrow> if c \<noteq> [] then length c else 0)),
       segmentsLength = (case t of None \<Rightarrow> 0 | Some tr \<Rightarrow> segments_length (segments tr)) \<rparr>"

text \<open>The comparison of the completion effect, field by field with \<open>!==\<close>.\<close>

definition signature_differs :: "transcript_signature \<Rightarrow> transcript_signature \<Rightarrow> bool" where
  "signature_differs cur base =
     (signature_id cur \<noteq> signature_id base \<or>
      contentLength cur \<noteq> contentLength base \<or>
      segmentsLength cur \<noteq> segmentsLength base)"

text \<open>The React state of the tracking.\<close>

record retranscribe_state =
  isRetranscribing :: bool
  hasSeenProcessing :: bool
  retranscribeBaseline :: "transcript_signature option"
  forceHideRetranscribeOverlay :: bool

definition idle_state :: retranscribe_state where
  "idle_state = \<lparr> isRetranscribing = False, hasSeenProcessing = False,
                  retranscribeBaseline = None, forceHideRetranscribeOverlay = False \<rparr>"

text \<open>The success toast of the completion effect.\<close>

datatype notice = RetranscribeComplete

definition find_session :: "string \<Rightarrow> session list \<Rightarrow> session option" where
  "find_session sid ss = find (\<lambda>s. session_id s = sid) ss"

text \<open>
  \<open>handleRetranscribe\<close>, up to the request: the state it sets when it starts tracking the
  selected session. It starts only for a selected session that exists and is \<open>completed\<close>.
\<close>

definition begin_retranscribe :: "string \<Rightarrow> session list \<Rightarrow> retranscribe_state
    \<Rightarrow> retranscribe_state option" where
  "begin_retranscribe selectedSessionId ss st =
     (if selectedSessionId = [] then None
      else case find_session selectedSessionId ss of
        None \<Rightarrow> None
      | Some selectedSession \<Rightarrow>
          if session_status selectedSession \<noteq> ''completed'' then None
          else Some (st\<lparr> isRetranscribing := True, hasSeenProcessing := False,
                          retranscribeBaseline :=
                            Some (signature_of (first_transcription selectedSession)) \<rparr>))"


subsection \<open>The transcript editor\<close>

text \<open>
  The state of the editor that the completion effect reads and writes. The time stamp of
  an item is kept as what the source computes it from: the two values it hands to
  \<open>formatSegmentTimeRange\<close>, or the wall clock (\<open>new Date().toLocaleTimeString(...)\<close>).
\<close>

datatype timestamp_source =
    SegmentRange js_value js_value
  | WallClock

record transcript_item =
  item_id :: string
  item_timestamp :: timestamp_source
  item_speaker :: js_value
  item_text :: js_value

record editor_state =
  currentTranscript :: "transcript_item list"
  fullTranscriptText :: string

definition empty_editor :: editor_state where
  "empty_editor = \<lparr> currentTranscript = [], fullTranscriptText = [] \<rparr>"

text \<open>
  Reading a property of a value (\<open>v.k\<close>), for the keys \<open>start_time\<close>, \<open>end_time\<close>,
  \<open>speaker\<close> and \<open>text\<close> that the effect reads: \<open>None\<close> is the \<open>TypeError\<close> that reading a
  property of \<open>null\<close> or \<open>undefined\<close> throws; a number, a boolean, a string and an array
  have none of these properties. An object is the list of its properties, each key once.
\<close>

fun js_get :: "js_value \<Rightarrow> string \<Rightarrow> js_value option" where
  "js_get JUndefined k = None"
| "js_get JNull k = None"
| "js_get (JObj kvs) k = Some (case map_of kvs k of None \<Rightarrow> JUndefined | Some v \<Rightarrow> v)"
| "js_get (JBool b) k = Some JUndefined"
| "js_get (JNum n) k = Some JUndefined"
| "js_get (JStr s) k = Some JUndefined"
| "js_get (JArr xs) k = Some JUndefined"

text \<open>\<open>String.prototype.trim\<close>, on code units below 256.\<close>

definition is_js_space :: "char \<Rightarrow> bool" where
  "is_js_space c = ((of_char c :: nat) \<in> {9, 10, 11, 12, 13, 32, 160})"

definition js_trim :: "string \<Rightarrow> string" where
  "js_trim s = rev (dropWhile is_js_space (rev (dropWhile is_js_space s)))"

text \<open>\<open>transcription.id\<close> inside a template literal.\<close>

definition template_id :: "string option \<Rightarrow> string" where
  "template_id tid = (case tid of None \<Rightarrow> ''undefined'' | Some i \<Rightarrow> i)"

text \<open>
  The callback of \<open>segments.map\<close> at one segment and its index; \<open>None\<close> is the \<open>TypeError\<close>
  of reading a property of a \<open>null\<close> or \<open>undefined\<close> segment.
\<close>

definition segment_item :: "string option \<Rightarrow> js_value \<Rightarrow> nat \<Rightarrow> transcript_item option" where
  "segment_item tid segment index =
     (case js_get segment ''start_time'' of None \<Rightarrow> None | Some start_time \<Rightarrow>
      case js_get segment ''end_time'' of None \<Rightarrow> None | Some end_time \<Rightarrow>
      case js_get segment ''speaker'' of None \<Rightarrow> None | Some speaker \<Rightarrow>
      case js_get segment ''text'' of None \<Rightarrow> None | Some tx \<Rightarrow>
        Some \<lparr> item_id = template_id tid @ ''_segment_'' @ show_nat index,
               item_timestamp =
                 (if truthy start_time \<and> truthy end_time
                  then SegmentRange start_time end_time else WallClock),
               item_speaker = (if truthy speaker then speaker else JStr ''unknown''),
               item_text = (if truthy tx then tx else JStr []) \<rparr>)"

fun map_segments :: "string option \<Rightarrow> nat \<Rightarrow> js_value list \<Rightarrow> transcript_item list option" where
  "map_segments tid index [] = Some []"
| "map_segments tid index (segment # rest) =
     (case segment_item tid segment index of
        None \<Rightarrow> None
      | Some item \<Rightarrow>
          (case map_segments tid (Suc index) rest of
             None \<Rightarrow> None
           | Some items \<Rightarrow> Some (item # items)))"

text \<open>
  The callback of \<open>filter\<close>: \<open>item.text.trim().length > 0\<close>. The text of an item is a
  string or a truthy value that is not a string; the latter has no method \<open>trim\<close>, and
  calling it throws a \<open>TypeError\<close> (\<open>None\<close>).
\<close>

definition keeps_item :: "transcript_item \<Rightarrow> bool option" where
  "keeps_item item =
     (case item_text item of JStr s \<Rightarrow> Some (length (js_trim s) > 0) | _ \<Rightarrow> None)"

fun filter_items :: "transcript_item list \<Rightarrow> transcript_item list option" where
  "filter_items [] = Some []"
| "filter_items (item # rest) =
     (case keeps_item item of
        None \<Rightarrow> None
      | Some keep \<Rightarrow>
          (case filter_items rest of
             None \<Rightarrow> None
           | Some kept \<Rightarrow> Some (if keep then item # kept else kept)))"

text \<open>
  The block of the completion effect that loads the transcript of the selected session
  into the editor; \<open>None\<close> when it throws. It runs for a \<open>completed\<close> session with a
  transcription while the editor is empty, and writes only when the segments are a
  non-empty array.
\<close>

definition load_transcript :: "session \<Rightarrow> editor_state \<Rightarrow> editor_state option" where
  "load_transcript sel ed =
     (if session_status sel = ''completed'' then
        (case first_transcription sel of
           None \<Rightarrow> Some ed
         | Some transcription \<Rightarrow>
             if currentTranscript ed = [] then
               (case segments transcription of
                  JArr segs \<Rightarrow>
                    if segs \<noteq> [] then
                      (case map_segments (transcription_id transcription) 0 segs of
                         None \<Rightarrow> None
                       | Some items \<Rightarrow>
                           (case filter_items items of
                              None \<Rightarrow> None
                            | Some transcriptItems \<Rightarrow>
                                Some \<lparr> currentTranscript = transcriptItems,
                                       fullTranscriptText =
                                         (case content transcription of
                                            None \<Rightarrow> [] | Some c \<Rightarrow> c) \<rparr>))
                    else Some ed
                | _ \<Rightarrow> Some ed)
             else Some ed)
      else Some ed)"

subsection \<open>The completion effect\<close>

text \<open>
  Every condition of the effect reads the state captured by the render (\<open>st\<close>, \<open>ed\<close>); the
  setters queue their updates, which apply in the order of the calls (\<open>q\<close> is the tracking
  state queued so far). The steps are the \<open>if\<close> statements of the effect in their order:
  three that write the tracking state, the block that loads the transcript, and the reset
  for a status that is neither \<open>completed\<close> nor \<open>processing\<close>.
\<close>

definition track_processing :: "session \<Rightarrow> retranscribe_state \<Rightarrow> retranscribe_state
    \<Rightarrow> retranscribe_state" where
  "track_processing sel st q =
     (if session_status sel = ''processing'' \<and> isRetranscribing st \<and> \<not> hasSeenProcessing st
      then q\<lparr> hasSeenProcessing := True \<rparr> else q)"

definition finish_after_processing :: "session \<Rightarrow> retranscribe_state
    \<Rightarrow> retranscribe_state \<times> notice list \<Rightarrow> retranscribe_state \<times> notice list" where
  "finish_after_processing sel st qn =
     (if isRetranscribing st \<and> hasSeenProcessing st \<and> session_status sel = ''completed''
      then ((fst qn)\<lparr> isRetranscribing := False, hasSeenProcessing := False \<rparr>,
            snd qn @ [RetranscribeComplete])
      else qn)"

definition finish_on_signature_change :: "session \<Rightarrow> retranscribe_state
    \<Rightarrow> retranscribe_state \<times> notice list \<Rightarrow> retranscribe_state \<times> notice list" where
  "finish_on_signature_change sel st qn =
     (if isRetranscribing st \<and> session_status sel = ''completed'' then
        (let currentSignature = signature_of (first_transcription sel) in
         case retranscribeBaseline st of
           None \<Rightarrow> qn
         | Some baseline \<Rightarrow>
             if signature_differs currentSignature baseline
             then ((fst qn)\<lparr> isRetranscribing := False, hasSeenProcessing := False,
                              retranscribeBaseline := None \<rparr>,
                   snd qn @ [RetranscribeComplete])
             else qn)
      else qn)"

definition reset_on_other_status :: "session \<Rightarrow> retranscribe_state \<Rightarrow> retranscribe_state" where
  "reset_on_other_status sel q =
     (if session_status sel \<noteq> ''completed'' \<and> session_status sel \<noteq> ''processing''
      then q\<lparr> isRetranscribing := False, hasSeenProcessing := False,
               retranscribeBaseline := None \<rparr>
      else q)"

text \<open>
  How a run of the effect ends. \<open>EffectDone\<close>: it returned; the states are those its
  setters asked for and the toasts those it showed. \<open>EffectThrew\<close>: the block that loads the
  transcript threw a \<open>TypeError\<close>, which nothing in the effect catches; the tracking state
  is the one the setters called before the throw had asked for, the toasts are those
  shown before it, and no setter of the editor was called.
\<close>

datatype effect_end =
    EffectDone retranscribe_state editor_state "notice list"
  | EffectThrew retranscribe_state "notice list"

definition completion_effect :: "string \<Rightarrow> session list \<Rightarrow> retranscribe_state
    \<Rightarrow> editor_state \<Rightarrow> effect_end" where
  "completion_effect selectedSessionId ss st ed =
     (if selectedSessionId = [] then EffectDone st ed []
      else case find_session selectedSessionId ss of
        None \<Rightarrow> EffectDone st ed []
      | Some sel \<Rightarrow>
          (let q1 = track_processing sel st st;
               qn2 = finish_after_processing sel st (q1, []);
               qn3 = finish_on_signature_change sel st qn2
           in case load_transcript sel ed of
                None \<Rightarrow> EffectThrew (fst qn3) (snd qn3)
              | Some ed' \<Rightarrow> EffectDone (reset_on_other_status sel (fst qn3)) ed' (snd qn3)))"

subsection \<open>\<open>handleRetranscribe\<close> and its fallback check\<close>













subsection \<open>Example data\<close>

text \<open>
  A session \<open>s1\<close> whose transcription \<open>t1\<close> has 42 code units of content and three segments
  that are \<open>null\<close>; the same session with three well-formed segments, the second with a
  blank text; a baseline taken while the transcription had no content and no segments; and
  the firings of a timer that is never late while no session list ever arrives.
\<close>

definition demo_baseline :: transcript_signature where
  "demo_baseline = \<lparr> signature_id = Some ''t1'', contentLength = 0, segmentsLength = 0 \<rparr>"

definition demo_session :: "string \<Rightarrow> session" where
  "demo_session st =
     \<lparr> session_id = ''s1'', session_status = st,
       transcriptions = Some [\<lparr> transcription_id = Some ''t1'',
                                content = Some (replicate 42 (CHR ''a'')),
                                segments = JArr [JNull, JNull, JNull] \<rparr>] \<rparr>"




definition demo_tracking :: retranscribe_state where
  "demo_tracking = \<lparr> isRetranscribing = True, hasSeenProcessing = False,
                     retranscribeBaseline = Some demo_baseline,
                     forceHideRetranscribeOverlay = False \<rparr>"




section \<open>Properties of the task poller\<close>

subsection \<open>Strings\<close>

lemma starts_with_append: "starts_with (t @ ys) t"
  by (induction t) auto

lemma includes_str_starts: "starts_with s t \<Longrightarrow> includes_str s t"
  by (cases s; cases t) auto

lemma includes_str_infix: "includes_str (xs @ t @ ys) t"
proof (induction xs)
  case Nil
  show ?case by (simp add: includes_str_starts starts_with_append)
next
  case (Cons x xs)
  then show ?case by simp
qed

lemma poll_timeout_names_count: "includes_str (poll_timeout m) (show_int m)"
  unfolding poll_timeout_def by (rule includes_str_infix)

lemma http_error_403: "http_error 403 = ''HTTP 403''"
  by code_simp

lemma http_error_403_is_auth: "includes_str (http_error 403) ''403''"
  unfolding http_error_403 by simp

subsection \<open>One iteration\<close>

lemma iteration_keeps_polling:
  assumes "keeps_polling out"
  shows "iteration m a out =
           NextAttempt (if try_block out = TryWaitContinue then Some 3000 else None)"
  using assms
  by (auto simp: keeps_polling_def iteration_def try_block_def getTaskStatus_def Let_def
      split: fetch_outcome.splits option.splits)

lemma still_running_keeps_polling: "still_running out \<Longrightarrow> keeps_polling out"
  by (auto simp: still_running_def keeps_polling_def split: fetch_outcome.splits)

lemma iteration_still_running:
  assumes "still_running out"
  shows "iteration m a out = NextAttempt (Some 3000)"
  using assms
  by (auto simp: still_running_def iteration_def try_block_def getTaskStatus_def Let_def
      split: fetch_outcome.splits)

lemma iteration_auth_error:
  assumes "try_block out = TryThrow m" and "includes_str m ''403''"
  shows "iteration maxAttempts attempt out =
           (if attempt \<ge> 5 then Finished (Inl (auth_error m)) else NextAttempt (Some 1000))"
  using assms by (simp add: iteration_def catch_block_def)

lemma poll_from_next:
  assumes "int attempt < maxAttempts"
    and "iteration maxAttempts attempt (env attempt) = NextAttempt d"
  shows "poll_from env maxAttempts attempt tr =
           poll_from env maxAttempts (Suc attempt) (after_sleep d (after_fetch tr))"
  using assms by (subst poll_from.simps) simp

lemma poll_from_finished:
  assumes "int attempt < maxAttempts"
    and "iteration maxAttempts attempt (env attempt) = Finished r"
  shows "poll_from env maxAttempts attempt tr = (r, after_fetch tr)"
  using assms by (subst poll_from.simps) simp

subsection \<open>Replies that never end the task\<close>

lemma poll_from_never_terminal:
  assumes "\<forall>k. a \<le> k \<and> int k < m \<longrightarrow> keeps_polling (env k)"
  shows "fst (poll_from env m a tr) = Inl (poll_timeout m) \<and>
         fetches (snd (poll_from env m a tr)) = fetches tr + nat (m - int a) \<and>
         set (sleeps (snd (poll_from env m a tr))) \<subseteq> set (sleeps tr) \<union> {3000}"
  using assms
proof (induction env m a tr rule: poll_from.induct)
  case (1 env m a tr)
  show ?case
  proof (cases "int a < m")
    case False
    then show ?thesis by (auto simp: poll_from.simps)
  next
    case True
    let ?d = "if try_block (env a) = TryWaitContinue then Some (3000::nat) else None"
    let ?tr = "after_sleep ?d (after_fetch tr)"
    have it: "iteration m a (env a) = NextAttempt ?d"
      using 1(2) True by (intro iteration_keeps_polling) simp
    have step: "poll_from env m a tr = poll_from env m (Suc a) ?tr"
      by (rule poll_from_next[where env = env, OF True it])
    have ih: "fst (poll_from env m (Suc a) ?tr) = Inl (poll_timeout m) \<and>
         fetches (snd (poll_from env m (Suc a) ?tr)) = fetches ?tr + nat (m - int (Suc a)) \<and>
         set (sleeps (snd (poll_from env m (Suc a) ?tr))) \<subseteq> set (sleeps ?tr) \<union> {3000}"
      using 1(1)[OF True it] 1(2) by simp
    have f: "fetches ?tr + nat (m - int (Suc a)) = fetches tr + nat (m - int a)"
      using True by (simp add: after_sleep_def after_fetch_def)
    have s: "set (sleeps ?tr) \<subseteq> set (sleeps tr) \<union> {3000}"
      by (auto simp: after_sleep_def after_fetch_def)
    show ?thesis using ih f s unfolding step by auto
  qed
qed

lemma poll_from_still_running:
  assumes "\<forall>k. a \<le> k \<and> int k < m \<longrightarrow> still_running (env k)"
  shows "sleeps (snd (poll_from env m a tr)) = sleeps tr @ replicate (nat (m - int a)) 3000"
  using assms
proof (induction env m a tr rule: poll_from.induct)
  case (1 env m a tr)
  show ?case
  proof (cases "int a < m")
    case False
    then show ?thesis by (simp add: poll_from.simps)
  next
    case True
    let ?tr = "after_sleep (Some 3000) (after_fetch tr)"
    have it: "iteration m a (env a) = NextAttempt (Some 3000)"
      using 1(2) True by (intro iteration_still_running) simp
    have step: "poll_from env m a tr = poll_from env m (Suc a) ?tr"
      by (rule poll_from_next[where env = env, OF True it])
    have ih: "sleeps (snd (poll_from env m (Suc a) ?tr)) =
          sleeps ?tr @ replicate (nat (m - int (Suc a))) 3000"
      using 1(1)[OF True it] 1(2) by simp
    have n: "nat (m - int a) = Suc (nat (m - int (Suc a)))"
      using True by simp
    show ?thesis unfolding step ih n
      by (simp add: after_sleep_def after_fetch_def replicate_append_same)
  qed
qed

text \<open>
  C7. When every status fetch of the run succeeds with a reply that does not end the task
  (not \<open>failed\<close>, not \<open>cancelled\<close>, not \<open>completed\<close> with a result), the poller makes exactly
  \<open>maxAttempts\<close> fetches and then throws the timeout error, whose message contains the
  decimal \<open>maxAttempts\<close>. Every sleep it takes is the base delay of 3000 ms, and when the
  replies are all \<open>pending\<close> or \<open>processing\<close> it sleeps 3000 ms after each of the
  \<open>maxAttempts\<close> fetches. The default of \<open>maxAttempts\<close> is 120.
\<close>

theorem poll_timeout_after_maxAttempts:
  assumes "0 \<le> maxAttempts"
    and "\<forall>k. int k < maxAttempts \<longrightarrow> keeps_polling (env k)"
  shows "fst (pollV2TaskStatus env (Some maxAttempts)) = Inl (poll_timeout maxAttempts) \<and>
         int (fetches (snd (pollV2TaskStatus env (Some maxAttempts)))) = maxAttempts \<and>
         set (sleeps (snd (pollV2TaskStatus env (Some maxAttempts)))) \<subseteq> {3000} \<and>
         ((\<forall>k. int k < maxAttempts \<longrightarrow> still_running (env k)) \<longrightarrow>
            sleeps (snd (pollV2TaskStatus env (Some maxAttempts))) =
              replicate (nat maxAttempts) 3000) \<and>
         includes_str (poll_timeout maxAttempts) (show_int maxAttempts) \<and>
         pollV2TaskStatus env None = pollV2TaskStatus env (Some 120)"
proof -
  have a: "\<forall>k. 0 \<le> k \<and> int k < maxAttempts \<longrightarrow> keeps_polling (env k)"
    using assms(2) by simp
  note nt = poll_from_never_terminal[OF a, of "\<lparr>fetches = 0, sleeps = []\<rparr>"]
  have s: "(\<forall>k. int k < maxAttempts \<longrightarrow> still_running (env k)) \<Longrightarrow>
      sleeps (snd (pollV2TaskStatus env (Some maxAttempts))) = replicate (nat maxAttempts) 3000"
    using poll_from_still_running[of 0 maxAttempts env "\<lparr>fetches = 0, sleeps = []\<rparr>"]
    by (simp add: pollV2TaskStatus_def)
  show ?thesis
    using nt s assms(1) poll_timeout_names_count[of maxAttempts]
    by (simp add: pollV2TaskStatus_def default_maxAttempts_def)
qed

theorem poll_timeout_after_maxAttempts_witness:
  "fst (pollV2TaskStatus (scripted [] (reply ''pending'')) (Some 5)) = Inl (poll_timeout 5) \<and>
   fetches (snd (pollV2TaskStatus (scripted [] (reply ''pending'')) (Some 5))) = 5 \<and>
   sleeps (snd (pollV2TaskStatus (scripted [] (reply ''pending'')) (Some 5))) =
     [3000, 3000, 3000, 3000, 3000]"
proof -
  have k: "\<forall>k. int k < 5 \<longrightarrow> keeps_polling (scripted [] (reply ''pending'') k)"
    by (simp add: keeps_polling_def scripted_def reply_def)
  have r: "\<forall>k. int k < 5 \<longrightarrow> still_running (scripted [] (reply ''pending'') k)"
    by (simp add: still_running_def scripted_def reply_def)
  have z: "(0::int) \<le> 5" by simp
  show ?thesis
    using poll_timeout_after_maxAttempts[OF z k] r
    by (simp add: numeral_eq_Suc)
qed

subsection \<open>A \<open>completed\<close> reply without a result\<close>

lemma success_only_with_result:
  "iteration maxAttempts attempt out = Finished (Inr v) \<longleftrightarrow>
   (\<exists>r. out = Json r \<and> status r = ''completed'' \<and> present_result r = Some v)"
  by (auto simp: iteration_def try_block_def getTaskStatus_def catch_block_def Let_def
      split: fetch_outcome.splits option.splits if_splits)

text \<open>
  C10. An attempt whose reply is \<open>completed\<close> with the result absent or falsy ends neither
  with the result nor with an error: the iteration goes on to the next attempt with no
  sleep, so the loop from this attempt is the loop from the next one with one more fetch
  counted and the sleeps unchanged. An iteration returns the result \<open>v\<close> exactly when the
  reply is \<open>completed\<close> and \<open>v\<close> is its result, present and truthy.
\<close>

theorem completed_without_result_skips:
  assumes "int attempt < maxAttempts"
    and "env attempt = Json r"
    and "status r = ''completed''"
    and "present_result r = None"
  shows "iteration maxAttempts attempt (env attempt) = NextAttempt None \<and>
         poll_from env maxAttempts attempt tr =
           poll_from env maxAttempts (Suc attempt) (tr\<lparr>fetches := Suc (fetches tr)\<rparr>) \<and>
         (\<forall>out v. iteration maxAttempts attempt out = Finished (Inr v) \<longleftrightarrow>
            (\<exists>r'. out = Json r' \<and> status r' = ''completed'' \<and> present_result r' = Some v))"
proof -
  have it: "iteration maxAttempts attempt (env attempt) = NextAttempt None"
    using assms(2-4) by (simp add: iteration_def try_block_def getTaskStatus_def)
  have "poll_from env maxAttempts attempt tr =
      poll_from env maxAttempts (Suc attempt) (after_sleep None (after_fetch tr))"
    by (rule poll_from_next[where env = env, OF assms(1) it])
  then show ?thesis
    using it success_only_with_result by (simp add: after_sleep_def after_fetch_def)
qed

theorem completed_without_result_skips_witness:
  "iteration 120 0 (scripted [reply ''completed''] (reply_completed (JStr ''ok'')) 0) = NextAttempt None \<and>
   pollV2TaskStatus (scripted [reply ''completed''] (reply_completed (JStr ''ok''))) None =
     (Inr (JStr ''ok''), \<lparr>fetches = 2, sleeps = []\<rparr>)"
proof -
  let ?env = "scripted [reply ''completed''] (reply_completed (JStr ''ok''))"
  have a: "int 0 < 120" by simp
  have b: "?env 0 = Json \<lparr> status = ''completed'', progress = None, result = None, error = None \<rparr>"
    by (simp add: scripted_def reply_def)
  have c: "status \<lparr> status = ''completed'', progress = None, result = None, error = None \<rparr> = ''completed''"
    by simp
  have d: "present_result \<lparr> status = ''completed'', progress = None, result = None, error = None \<rparr> = None"
    by (simp add: present_result_def)
  note t = completed_without_result_skips[where env = ?env and tr = "\<lparr>fetches = 0, sleeps = []\<rparr>", OF a b c d]
  have e: "poll_from ?env 120 (Suc 0) \<lparr>fetches = Suc 0, sleeps = []\<rparr> = (Inr (JStr ''ok''), \<lparr>fetches = 2, sleeps = []\<rparr>)"
    by code_simp
  show ?thesis using t e by (simp add: pollV2TaskStatus_def default_maxAttempts_def)
qed

subsection \<open>Errors thrown inside the \<open>try\<close> block\<close>

lemma poll_from_same_delay:
  assumes "\<forall>k<n. iteration maxAttempts k (env k) = NextAttempt (Some d)"
    and "int n \<le> maxAttempts"
  shows "poll_from env maxAttempts 0 tr =
     poll_from env maxAttempts n
       (tr\<lparr>fetches := fetches tr + n, sleeps := sleeps tr @ replicate n d\<rparr>)"
  using assms
proof (induction n)
  case 0
  show ?case by simp
next
  case (Suc n)
  let ?tr = "tr\<lparr>fetches := fetches tr + n, sleeps := sleeps tr @ replicate n d\<rparr>"
  have a: "int n < maxAttempts"
    using Suc.prems(2) by simp
  have it: "iteration maxAttempts n (env n) = NextAttempt (Some d)"
    using Suc.prems(1) by simp
  have "poll_from env maxAttempts 0 tr = poll_from env maxAttempts n ?tr"
    using Suc by simp
  also have "\<dots> = poll_from env maxAttempts (Suc n) (after_sleep (Some d) (after_fetch ?tr))"
    by (rule poll_from_next[where env = env, OF a it])
  finally show ?case
    by (simp add: after_sleep_def after_fetch_def replicate_append_same)
qed

lemma iteration_other_error:
  assumes "try_block out = TryThrow m" and "\<not> includes_str m ''403''"
  shows "iteration maxAttempts attempt out =
           (if int attempt \<ge> maxAttempts - 3 then Finished (Inl m) else NextAttempt (Some 3000))"
  using assms by (simp add: iteration_def catch_block_def)

lemma try_block_failed: "try_block (reply_failed ''boom'') = TryThrow ''boom''"
  by (simp add: try_block_def reply_failed_def getTaskStatus_def task_failure_def)

lemma boom_not_auth: "\<not> includes_str ''boom'' ''403''"
  by simp

text \<open>
  C1. With the default budget of 120 attempts, let the status fetches yield \<open>pending\<close>,
  \<open>pending\<close> and from then on \<open>failed\<close> with the error message \<open>boom\<close>. The error thrown
  for the \<open>failed\<close> reply is thrown inside the \<open>try\<close> block, so the \<open>catch\<close> block of the
  same iteration receives it and treats it as a failed status query: it sleeps 3000 ms and
  fetches again, until fewer than 3 attempts remain. The poll rejects with \<open>boom\<close> only on
  the 118th fetch, after 117 sleeps of 3000 ms, not on the 3rd.
\<close>

theorem failed_status_is_retried:
  "pollV2TaskStatus (scripted [reply ''pending'', reply ''pending''] (reply_failed ''boom'')) None =
     (Inl ''boom'', \<lparr>fetches = 118, sleeps = replicate 117 3000\<rparr>)"
proof -
  let ?env = "scripted [reply ''pending'', reply ''pending''] (reply_failed ''boom'')"
  have run: "\<forall>k<117. iteration 120 k (?env k) = NextAttempt (Some 3000)"
  proof (intro allI impI)
    fix k :: nat assume k: "k < 117"
    show "iteration 120 k (?env k) = NextAttempt (Some 3000)"
    proof (cases "k < 2")
      case True
      then have "k = 0 \<or> k = 1" by auto
      then have "still_running (?env k)"
        by (auto simp: scripted_def still_running_def reply_def)
      then show ?thesis by (rule iteration_still_running)
    next
      case False
      then have e: "?env k = reply_failed ''boom''"
        by (simp add: scripted_def)
      show ?thesis
        unfolding e using iteration_other_error[OF try_block_failed boom_not_auth, of 120 k] k
        by simp
    qed
  qed
  have last: "iteration 120 117 (?env 117) = Finished (Inl ''boom'')"
    using iteration_other_error[OF try_block_failed boom_not_auth, of 120 117]
    by (simp add: scripted_def)
  have "poll_from ?env 120 0 \<lparr>fetches = 0, sleeps = []\<rparr> =
      poll_from ?env 120 117 \<lparr>fetches = 117, sleeps = replicate 117 3000\<rparr>"
    using poll_from_same_delay[where env = ?env and n = 117 and maxAttempts = 120 and d = 3000
        and tr = "\<lparr>fetches = 0, sleeps = []\<rparr>"] run
    by simp
  also have "\<dots> = (Inl ''boom'', after_fetch \<lparr>fetches = 117, sleeps = replicate 117 3000\<rparr>)"
    by (rule poll_from_finished[where env = ?env, OF _ last]) simp
  finally show ?thesis
    by (simp add: pollV2TaskStatus_def default_maxAttempts_def after_fetch_def)
qed

subsection \<open>Authorization errors\<close>

lemma poll_from_auth_retry:
  assumes "int attempt < maxAttempts" and "try_block (env attempt) = TryThrow m"
    and "includes_str m ''403''" and "attempt < 5"
  shows "poll_from env maxAttempts attempt tr =
     poll_from env maxAttempts (Suc attempt) (tr\<lparr>fetches := Suc (fetches tr), sleeps := sleeps tr @ [1000]\<rparr>)"
proof -
  have it: "iteration maxAttempts attempt (env attempt) = NextAttempt (Some 1000)"
    using iteration_auth_error[OF assms(2,3)] assms(4) by simp
  show ?thesis
    unfolding poll_from_next[where env = env, OF assms(1) it]
    by (simp add: after_sleep_def after_fetch_def)
qed

lemma poll_from_auth_fatal:
  assumes "int attempt < maxAttempts" and "try_block (env attempt) = TryThrow m"
    and "includes_str m ''403''" and "5 \<le> attempt"
  shows "poll_from env maxAttempts attempt tr = (Inl (auth_error m), tr\<lparr>fetches := Suc (fetches tr)\<rparr>)"
proof -
  have it: "iteration maxAttempts attempt (env attempt) = Finished (Inl (auth_error m))"
    using iteration_auth_error[OF assms(2,3)] assms(4) by simp
  show ?thesis
    unfolding poll_from_finished[where env = env, OF assms(1) it]
    by (simp add: after_fetch_def)
qed

lemma poll_from_auth_retries:
  assumes "n \<le> 5" and "int n \<le> maxAttempts"
    and "\<forall>k<n. \<exists>m. try_block (env k) = TryThrow m \<and> includes_str m ''403''"
  shows "poll_from env maxAttempts 0 tr =
     poll_from env maxAttempts n
       (tr\<lparr>fetches := fetches tr + n, sleeps := sleeps tr @ replicate n 1000\<rparr>)"
proof (rule poll_from_same_delay[OF _ assms(2)], intro allI impI)
  fix k assume k: "k < n"
  then obtain m where m: "try_block (env k) = TryThrow m" "includes_str m ''403''"
    using assms(3) by blast
  show "iteration maxAttempts k (env k) = NextAttempt (Some 1000)"
    using iteration_auth_error[OF m, of maxAttempts k] k assms(1) by simp
qed

lemma six_auth_errors:
  assumes "6 \<le> maxAttempts" and "\<forall>k<6. env k = NotOk 403"
  shows "pollV2TaskStatus env (Some maxAttempts) =
     (Inl (auth_error (http_error 403)), \<lparr>fetches = 6, sleeps = replicate 5 1000\<rparr>)"
proof -
  have th: "\<And>k. k < 6 \<Longrightarrow> try_block (env k) = TryThrow (http_error 403)"
    using assms(2) by (simp add: try_block_def)
  have "\<forall>k<5. \<exists>m. try_block (env k) = TryThrow m \<and> includes_str m ''403''"
    using th http_error_403_is_auth by auto
  then have "poll_from env maxAttempts 0 \<lparr>fetches = 0, sleeps = []\<rparr> =
      poll_from env maxAttempts 5 \<lparr>fetches = 5, sleeps = replicate 5 1000\<rparr>"
    using poll_from_auth_retries[of 5 maxAttempts env "\<lparr>fetches = 0, sleeps = []\<rparr>"] assms(1)
    by simp
  also have "\<dots> = (Inl (auth_error (http_error 403)), \<lparr>fetches = 6, sleeps = replicate 5 1000\<rparr>)"
    using poll_from_auth_fatal[where env = env and attempt = 5 and maxAttempts = maxAttempts
        and m = "http_error 403" and tr = "\<lparr>fetches = 5, sleeps = replicate 5 1000\<rparr>"]
      th[of 5] http_error_403_is_auth assms(1)
    by simp
  finally show ?thesis by (simp add: pollV2TaskStatus_def)
qed

text \<open>
  C2. With the default budget of 120 attempts, let the status fetches yield \<open>pending\<close> five
  times and then HTTP 403. The guard of the fast retry compares 5 with the index of the
  attempt in the whole loop, not with the number of auth errors met, so this first auth
  error, at index 5, gets no retry and no 1000 ms delay: the poll rejects with the auth
  error on the 6th fetch, after the five sleeps of 3000 ms of the \<open>pending\<close> replies. (Six
  403 replies from the first attempt on do get their five fast retries, as
  \<open>six_auth_errors\<close> shows.)
\<close>

theorem first_auth_error_at_index_5_not_retried:
  "pollV2TaskStatus (scripted (replicate 5 (reply ''pending'')) (NotOk 403)) None =
     (Inl (auth_error (http_error 403)),
      \<lparr>fetches = 6, sleeps = [3000, 3000, 3000, 3000, 3000]\<rparr>)"
  by code_simp

section \<open>Properties of the subscription manager\<close>

text \<open>
  C5. When the map already holds a channel for the name \<open>n\<close>, both create operations
  return that channel and leave the manager and the transport as they were: no subscription
  is opened. When the map holds none and the transport opens the subscription, the new
  channel is returned, one subscription is added to the transport and the map gets the
  channel under \<open>n\<close>. A create operation opens a subscription only for a name that is not in
  the map, and a second call for the same name right after a call that returned a channel
  returns the same channel and changes nothing. (Each operation runs its test and its
  insertion in one synchronous step of the model.)
\<close>

theorem create_channel_idempotent:
  "(hasChannel m n \<longrightarrow>
      createChannel n userId oc m = (activeChannels m n, m) \<and>
      createTranscriptionChannel n sessionIds oc m = (activeChannels m n, m) \<and>
      activeChannels m n \<noteq> None) \<and>
   (\<not> hasChannel m n \<longrightarrow>
      fst (createChannel n userId Opened m) = Some (length (opened m)) \<and>
      opened (snd (createChannel n userId Opened m)) =
        opened m @ [\<lparr> topic = n, table = ''recording_sessions'',
                       row_filter = Some (''user_id=eq.'' @ userId) \<rparr>] \<and>
      activeChannels (snd (createChannel n userId Opened m)) =
        (activeChannels m)(n \<mapsto> length (opened m)) \<and>
      fst (createTranscriptionChannel n sessionIds Opened m) = Some (length (opened m)) \<and>
      opened (snd (createTranscriptionChannel n sessionIds Opened m)) =
        opened m @ [\<lparr> topic = n, table = ''transcriptions'', row_filter = None \<rparr>] \<and>
      activeChannels (snd (createTranscriptionChannel n sessionIds Opened m)) =
        (activeChannels m)(n \<mapsto> length (opened m))) \<and>
   (opened (snd (createChannel n userId oc m)) \<noteq> opened m \<longrightarrow> \<not> hasChannel m n) \<and>
   (opened (snd (createTranscriptionChannel n sessionIds oc m)) \<noteq> opened m \<longrightarrow> \<not> hasChannel m n) \<and>
   (fst (createChannel n userId oc m) \<noteq> None \<longrightarrow>
      createChannel n userId' oc' (snd (createChannel n userId oc m)) =
        (fst (createChannel n userId oc m), snd (createChannel n userId oc m))) \<and>
   (fst (createTranscriptionChannel n sessionIds oc m) \<noteq> None \<longrightarrow>
      createTranscriptionChannel n sessionIds' oc' (snd (createTranscriptionChannel n sessionIds oc m)) =
        (fst (createTranscriptionChannel n sessionIds oc m),
         snd (createTranscriptionChannel n sessionIds oc m)))"
  by (cases oc)
    (auto simp: createChannel_def createTranscriptionChannel_def hasChannel_def
      open_and_store_def Let_def)

theorem create_channel_idempotent_witness:
  "\<not> hasChannel empty_manager ''sessions'' \<and>
   fst (createChannel ''sessions'' ''u1'' Opened empty_manager) = Some 0 \<and>
   hasChannel (snd (createChannel ''sessions'' ''u1'' Opened empty_manager)) ''sessions'' \<and>
   createChannel ''sessions'' ''u1'' Opened
       (snd (createChannel ''sessions'' ''u1'' Opened empty_manager)) =
     (Some 0, snd (createChannel ''sessions'' ''u1'' Opened empty_manager)) \<and>
   length (opened (snd (createChannel ''sessions'' ''u1'' Opened
       (snd (createChannel ''sessions'' ''u1'' Opened empty_manager))))) = 1"
proof -
  let ?m1 = "snd (createChannel ''sessions'' ''u1'' Opened empty_manager)"
  have a: "\<not> hasChannel empty_manager ''sessions''"
    by (simp add: hasChannel_def empty_manager_def)
  have b: "hasChannel ?m1 ''sessions''"
    by (simp add: createChannel_def hasChannel_def empty_manager_def open_and_store_def)
  have c: "activeChannels ?m1 ''sessions'' = Some 0"
    by (simp add: createChannel_def hasChannel_def empty_manager_def open_and_store_def)
  have d: "length (opened ?m1) = 1"
    by (simp add: createChannel_def hasChannel_def empty_manager_def open_and_store_def)
  show ?thesis
    using create_channel_idempotent[of empty_manager "''sessions''" "''u1''" Opened]
      create_channel_idempotent[of ?m1 "''sessions''" "''u1''" Opened] a b c d
    by (simp add: empty_manager_def)
qed

text \<open>
  C6. After \<open>removeChannel n\<close> the map holds no channel for \<open>n\<close>, whether the transport's
  \<open>unsubscribe\<close> returned or threw (and whether or not the map held one before).
\<close>

theorem remove_channel_always_deletes:
  "\<not> hasChannel (removeChannel n td m) n"
  by (cases td) (auto simp: removeChannel_def hasChannel_def split: option.splits)

lemma status_callback_removes:
  assumes "st = ''CHANNEL_ERROR'' \<or> st = ''TIMED_OUT'' \<or> st = ''CLOSED''"
  shows "\<not> hasChannel (on_subscribe_status n st td m) n"
  using assms
  by (cases td) (auto simp: on_subscribe_status_def removeChannel_def hasChannel_def
      split: option.splits)

section \<open>Properties of the retranscription tracking\<close>

subsection \<open>Signatures and example data\<close>

lemma signature_differs_iff: "signature_differs a b \<longleftrightarrow> a \<noteq> b"
  by (cases a; cases b) (auto simp: signature_differs_def)

lemma signature_eq_iff:
  "(a :: transcript_signature) = b \<longleftrightarrow>
     signature_id a = signature_id b \<and> contentLength a = contentLength b \<and>
     segmentsLength a = segmentsLength b"
  by (cases a; cases b) auto

lemma demo_find: "find_session ''s1'' [demo_session st] = Some (demo_session st)"
  by (simp add: find_session_def demo_session_def)





lemma demo_submission:
  "begin_retranscribe ''s1''
     [\<lparr> session_id = ''s1'', session_status = ''completed'',
        transcriptions = Some [\<lparr> transcription_id = Some ''t1'', content = None,
                                 segments = JUndefined \<rparr>] \<rparr>]
     idle_state = Some demo_tracking"
  by (simp add: begin_retranscribe_def find_session_def signature_of_def
      first_transcription_def segments_length_def idle_state_def demo_tracking_def
      demo_baseline_def)

subsection \<open>The block that loads the transcript\<close>

lemma load_transcript_other_status:
  "session_status sel \<noteq> ''completed'' \<Longrightarrow> load_transcript sel ed = Some ed"
  by (simp add: load_transcript_def)

lemma load_transcript_editor_filled:
  "currentTranscript ed \<noteq> [] \<Longrightarrow> load_transcript sel ed = Some ed"
  by (simp add: load_transcript_def split: option.splits)



lemma show_nat_digits: "show_nat 0 = ''0''" "show_nat 1 = ''1''" "show_nat 2 = ''2''"
  by code_simp+




subsection \<open>One run of the effect\<close>

lemma completion_effect_found:
  assumes "sid \<noteq> []" and "find_session sid ss = Some sel"
  shows "completion_effect sid ss st ed =
     (let qn3 = finish_on_signature_change sel st
                  (finish_after_processing sel st (track_processing sel st st, []))
      in case load_transcript sel ed of
           None \<Rightarrow> EffectThrew (fst qn3) (snd qn3)
         | Some ed' \<Rightarrow> EffectDone (reset_on_other_status sel (fst qn3)) ed' (snd qn3))"
  using assms by (simp add: completion_effect_def Let_def)



lemma completed_after_processing:
  assumes "sid \<noteq> []" and "find_session sid ss = Some sel"
    and "session_status sel = ''completed''"
    and "isRetranscribing st" and "hasSeenProcessing st"
  shows "\<exists>q toasts. \<not> isRetranscribing q \<and> \<not> hasSeenProcessing q \<and>
           RetranscribeComplete \<in> set toasts \<and>
           completion_effect sid ss st ed =
             (case load_transcript sel ed of
                None \<Rightarrow> EffectThrew q toasts
              | Some ed' \<Rightarrow> EffectDone q ed' toasts)"
  unfolding completion_effect_found[OF assms(1,2)]
  using assms(3-5)
  by (auto simp: Let_def track_processing_def finish_after_processing_def
      finish_on_signature_change_def reset_on_other_status_def split: option.splits)




text \<open>
  C8. A refresh that shows the selected session with a status that is neither
  \<open>processing\<close> nor \<open>completed\<close> puts the tracking back to idle: \<open>isRetranscribing\<close> and
  \<open>hasSeenProcessing\<close> are cleared and the baseline is discarded. The run of the effect
  returns, leaves the editor as it was and shows no success toast.
\<close>

theorem other_status_resets:
  assumes "sid \<noteq> []"
    and "find_session sid ss = Some sel"
    and "session_status sel \<noteq> ''processing''"
    and "session_status sel \<noteq> ''completed''"
  shows "completion_effect sid ss st ed =
           EffectDone (st\<lparr> isRetranscribing := False, hasSeenProcessing := False,
                           retranscribeBaseline := None \<rparr>) ed []"
  unfolding completion_effect_found[OF assms(1,2)]
  using assms(3,4)
  by (simp add: Let_def track_processing_def finish_after_processing_def
      finish_on_signature_change_def reset_on_other_status_def load_transcript_def)

theorem other_status_resets_witness:
  "completion_effect ''s1'' [demo_session ''failed'']
     \<lparr> isRetranscribing = True, hasSeenProcessing = False, retranscribeBaseline = None,
       forceHideRetranscribeOverlay = False \<rparr> empty_editor =
   EffectDone idle_state empty_editor []"
proof -
  have a: "''s1'' \<noteq> []" by simp
  have c: "session_status (demo_session ''failed'') \<noteq> ''processing''"
    by (simp add: demo_session_def)
  have d: "session_status (demo_session ''failed'') \<noteq> ''completed''"
    by (simp add: demo_session_def)
  show ?thesis
    using other_status_resets[OF a demo_find c d, of "\<lparr> isRetranscribing = True,
        hasSeenProcessing = False, retranscribeBaseline = None,
        forceHideRetranscribeOverlay = False \<rparr>" empty_editor]
    by (simp add: idle_state_def)
qed

subsection \<open>The submission and its fallback check\<close>















end
